theory Spec2Isabelle
  imports Main "HOL-Library.Char_ord"
begin

section \<open>Machine names: \<^verbatim>\<open>validHostNamePattern\<close> and \<^verbatim>\<open>ValidateHostName\<close>\<close>

text \<open>
  \<^verbatim>\<open>validHostNameChars\<close> is the pattern \<^verbatim>\<open>^[a-zA-Z0-9][a-zA-Z0-9\-\.]*$\<close>, compiled once by
  \<^verbatim>\<open>regexp.MustCompile\<close>. The model holds the compiled pattern as its syntax tree, in the
  fragment of Go's \<^verbatim>\<open>regexp/syntax\<close> that the pattern uses: a concatenation (a list) of
  begin-of-text, end-of-text, a character class, and the star of a character class. A
  character class is a list of inclusive ranges. No flag is set, so \<^verbatim>\<open>^\<close> and \<^verbatim>\<open>$\<close> are the
  beginning and the end of the whole text.

  Go matches runes, the model bytes. Every range of the pattern lies in ASCII, a byte
  of \<^verbatim>\<open>0x80\<close> or more is in no range, and a rune outside ASCII (or an invalid encoding) is
  in no range either, so both readings accept the same strings.
\<close>

datatype Regexp =
    OpBeginText
  | OpEndText
  | OpCharClass "(char \<times> char) list"
  | OpStar "(char \<times> char) list"

fun in_class :: "(char \<times> char) list \<Rightarrow> char \<Rightarrow> bool" where
  "in_class [] c = False"
| "in_class ((lo, hi) # rs) c = ((lo \<le> c \<and> c \<le> hi) \<or> in_class rs c)"

text \<open>
  \<open>match_here re at_start s\<close>: some prefix of \<open>s\<close> matches the concatenation \<open>re\<close>, where
  \<open>at_start\<close> says that \<open>s\<close> is the whole text. The star tries the rest of the pattern and
  one more character of the class; which of the two a backtracking matcher prefers
  changes the match found, not whether there is one.
\<close>

fun match_here :: "Regexp list \<Rightarrow> bool \<Rightarrow> string \<Rightarrow> bool" where
  "match_here [] at_start s = True"
| "match_here (OpBeginText # re) at_start s = (at_start \<and> match_here re at_start s)"
| "match_here (OpEndText # re) at_start s = (s = [] \<and> match_here re at_start s)"
| "match_here (OpCharClass cl # re) at_start [] = False"
| "match_here (OpCharClass cl # re) at_start (c # s) = (in_class cl c \<and> match_here re False s)"
| "match_here (OpStar cl # re) at_start [] = match_here re at_start []"
| "match_here (OpStar cl # re) at_start (c # s) =
     (match_here re at_start (c # s) \<or> (in_class cl c \<and> match_here (OpStar cl # re) False s))"

text \<open>\<^verbatim>\<open>MatchString\<close> reports whether the text contains any match: it tries every start.\<close>

fun match_from :: "Regexp list \<Rightarrow> bool \<Rightarrow> string \<Rightarrow> bool" where
  "match_from re at_start [] = match_here re at_start []"
| "match_from re at_start (c # s) = (match_here re at_start (c # s) \<or> match_from re False s)"

definition MatchString :: "Regexp list \<Rightarrow> string \<Rightarrow> bool" where
  "MatchString re s = match_from re True s"

definition alnum_ranges :: "(char \<times> char) list" where
  "alnum_ranges = [(CHR ''a'', CHR ''z''), (CHR ''A'', CHR ''Z''), (CHR ''0'', CHR ''9'')]"

definition validHostNamePattern :: "Regexp list" where
  "validHostNamePattern =
     [OpBeginText,
      OpCharClass alnum_ranges,
      OpStar (alnum_ranges @ [(CHR ''-'', CHR ''-''), (CHR ''.'', CHR ''.'')]),
      OpEndText]"

definition ValidateHostName :: "string \<Rightarrow> bool" where
  "ValidateHostName name = MatchString validHostNamePattern name"

text \<open>
  The hostname-like pattern in the words of the specification: an alphanumeric
  character, followed by alphanumerics, hyphens, or dots.
\<close>

definition alphanumeric :: "char \<Rightarrow> bool" where
  "alphanumeric c =
     ((CHR ''a'' \<le> c \<and> c \<le> CHR ''z'') \<or> (CHR ''A'' \<le> c \<and> c \<le> CHR ''Z'')
      \<or> (CHR ''0'' \<le> c \<and> c \<le> CHR ''9''))"

fun hostname_like :: "string \<Rightarrow> bool" where
  "hostname_like [] = False"
| "hostname_like (c # cs) =
     (alphanumeric c \<and> list_all (\<lambda>x. alphanumeric x \<or> x = CHR ''-'' \<or> x = CHR ''.'') cs)"

section \<open>Errors, lifecycle states and the collaborators of package \<^verbatim>\<open>host\<close>\<close>

text \<open>
  A Go \<^verbatim>\<open>error\<close> built by \<^verbatim>\<open>errors.New\<close> or \<^verbatim>\<open>fmt.Errorf\<close> is its message. A function
  returning \<^verbatim>\<open>error\<close> returns \<open>error option\<close> (\<open>None\<close> for \<^verbatim>\<open>nil\<close>); a function returning
  a value and an \<^verbatim>\<open>error\<close> returns a sum, \<open>Inl\<close> the error: the source never reads the
  value that comes with a non-nil error.
\<close>

text \<open>
  Modelled from the spec: \<open>ErrTimeout\<close> is the \<^verbatim>\<open>Timeout\<close> error of the Confirmation
  Poller (package \<^verbatim>\<open>mcnutils\<close> is not among the sources).
\<close>

datatype error = errorString string | ErrTimeout

text \<open>
  Modelled from the spec: the lifecycle states (package \<^verbatim>\<open>state\<close> is not among the
  sources), with the members the specification lists; \<open>State_String\<close> is the name of
  the member. \<open>None_st\<close> is the member \<^verbatim>\<open>None\<close>.
\<close>

datatype State = None_st | Running | Paused | Saved | Stopped | Starting | Error | Timeout

fun State_String :: "State \<Rightarrow> string" where
  "State_String None_st = ''None''"
| "State_String Running = ''Running''"
| "State_String Paused = ''Paused''"
| "State_String Saved = ''Saved''"
| "State_String Stopped = ''Stopped''"
| "State_String Starting = ''Starting''"
| "State_String Error = ''Error''"
| "State_String Timeout = ''Timeout''"

text \<open>\<^verbatim>\<open>strings.ToLower\<close> on ASCII text, which the names of the states are.\<close>

definition ToLower :: "string \<Rightarrow> string" where
  "ToLower s =
     map (\<lambda>c. case map_of (zip ''ABCDEFGHIJKLMNOPQRSTUVWXYZ'' ''abcdefghijklmnopqrstuvwxyz'') c of
                 None \<Rightarrow> c
               | Some l \<Rightarrow> l) s"

text \<open>
  The actions of packages \<^verbatim>\<open>pkgaction\<close> and \<^verbatim>\<open>serviceaction\<close> that the source names
  (their declarations are not among the sources).
\<close>

datatype PackageAction = pkgaction_Upgrade

datatype ServiceAction = serviceaction_Restart

text \<open>\<^verbatim>\<open>ssh.Auth\<close>, with the one field the source sets.\<close>

record ssh_Auth =
  Keys :: "string list"

text \<open>
  Modelled from the spec: the Backend Capability Interface, \<^verbatim>\<open>drivers.Driver\<close> (its
  declaration is not among the sources), with the methods the modelled operations call
  and the result types the source uses them at. A method is a function on \<open>'d\<close>, the state of all that lies behind the interface (the
  driver object and the machine it drives): it returns its result and the new state.
  The methods of the driver named \<^verbatim>\<open>Start\<close>, \<^verbatim>\<open>Stop\<close> and \<^verbatim>\<open>Kill\<close> carry the prefix
  \<open>Driver_\<close>, the names without prefix being the methods of \<^verbatim>\<open>Host\<close>.
\<close>

record 'd Driver =
  GetState :: "'d \<Rightarrow> (error + State) \<times> 'd"
  Driver_Start :: "'d \<Rightarrow> error option \<times> 'd"
  Driver_Stop :: "'d \<Rightarrow> error option \<times> 'd"
  Driver_Kill :: "'d \<Rightarrow> error option \<times> 'd"
  GetSSHHostname :: "'d \<Rightarrow> (error + string) \<times> 'd"
  GetSSHPort :: "'d \<Rightarrow> (error + int) \<times> 'd"
  GetSSHKeyPath :: "'d \<Rightarrow> string \<times> 'd"
  GetSSHUsername :: "'d \<Rightarrow> string \<times> 'd"

text \<open>
  Modelled from the spec: the Provisioner Delegate Interface, \<^verbatim>\<open>provision.Provisioner\<close>
  (its declaration is not among the sources). Its methods work on the machine, so on
  \<open>'d\<close> too. The types \<open>'s\<close>, \<open>'a\<close> and \<open>'e\<close> stand for \<^verbatim>\<open>swarm.Options\<close>, \<^verbatim>\<open>auth.Options\<close> and
  \<^verbatim>\<open>engine.Options\<close>, whose declarations are not among the sources.
\<close>

record ('d, 's, 'a, 'e) Provisioner =
  Package :: "string \<Rightarrow> PackageAction \<Rightarrow> 'd \<Rightarrow> error option \<times> 'd"
  Service :: "string \<Rightarrow> ServiceAction \<Rightarrow> 'd \<Rightarrow> error option \<times> 'd"
  Provision :: "'s \<Rightarrow> 'a \<Rightarrow> 'e \<Rightarrow> 'd \<Rightarrow> error option \<times> 'd"

section \<open>The data model: \<^verbatim>\<open>Options\<close> and \<^verbatim>\<open>Host\<close>\<close>

text \<open>
  A pointer field is an \<open>option\<close>, \<open>None\<close> the nil pointer. The field \<^verbatim>\<open>Driver\<close> of
  \<^verbatim>\<open>Options\<close> is \<open>Options_Driver\<close> here, \<open>Driver\<close> being the field of \<^verbatim>\<open>Host\<close>. The
  \<^verbatim>\<open>Driver\<close> of a \<^verbatim>\<open>Host\<close> is an interface value: the model holds its methods in the
  \<^verbatim>\<open>Host\<close> and its state in the \<open>backend\<close> of the world below, and takes it as present
  (the data model of the specification gives a Machine exactly one Backend).
\<close>

record ('s, 'a, 'e) Options =
  Options_Driver :: string
  Memory :: int
  Disk :: int
  EngineOptions :: "'e option"
  SwarmOptions :: "'s option"
  AuthOptions :: "'a option"

record ('d, 's, 'a, 'e) Host =
  ConfigVersion :: int
  Driver :: "'d Driver"
  DriverName :: string
  HostOptions :: "('s, 'a, 'e) Options option"
  Name :: string
  RawDriver :: "char list"

section \<open>The world: the \<^verbatim>\<open>Host\<close>, the backend behind its driver, and the calls made\<close>

text \<open>
  Every method of \<^verbatim>\<open>Host\<close> has the receiver \<^verbatim>\<open>h *Host\<close> and may write to it, so the
  \<^verbatim>\<open>Host\<close> is part of the state each operation takes and returns. The \<open>trace\<close> lists, in
  order, the calls the operations make to the driver, the provisioner, the poller and
  the logger.
\<close>

datatype ('s, 'a, 'e) event =
    Call_GetState
  | Call_Start
  | Call_Stop
  | Call_Kill
  | Call_GetSSHHostname
  | Call_GetSSHPort
  | Call_GetSSHKeyPath
  | Call_GetSSHUsername
  | Call_DetectProvisioner
  | Call_Package string PackageAction
  | Call_Service string ServiceAction
  | Call_Provision 's 'a 'e
  | Call_WaitFor
  | Call_Sleep
  | Log_Info string

record ('d, 's, 'a, 'e) world =
  host :: "('d, 's, 'a, 'e) Host"
  backend :: 'd
  trace :: "('s, 'a, 'e) event list"

text \<open>
  What the operations take from outside the repository's sources: \<open>Quote\<close> is the \<^verbatim>\<open>%q\<close>
  verb of \<^verbatim>\<open>fmt\<close> (Go's \<^verbatim>\<open>strconv.Quote\<close>); \<open>maxAttempts\<close> is the fixed budget of the
  Confirmation Poller, in evaluations of its predicate; \<open>DetectProvisioner\<close> is
  \<^verbatim>\<open>provision.DetectProvisioner\<close>; \<open>swarm_Options_zero\<close> is the value \<^verbatim>\<open>swarm.Options{}\<close>.
\<close>

record ('d, 's, 'a, 'e) Env =
  Quote :: "string \<Rightarrow> string"
  maxAttempts :: nat
  DetectProvisioner :: "'d Driver \<Rightarrow> 'd \<Rightarrow> (error + ('d, 's, 'a, 'e) Provisioner) \<times> 'd"
  swarm_Options_zero :: 's

definition record_event ::
  "('s, 'a, 'e) event \<Rightarrow> ('d, 's, 'a, 'e) world \<Rightarrow> ('d, 's, 'a, 'e) world" where
  "record_event ev w = w\<lparr>trace := trace w @ [ev]\<rparr>"

text \<open>\<open>invoke ev method\<close> calls a method of a collaborator on the backend and records the call.\<close>

definition invoke ::
  "('s, 'a, 'e) event \<Rightarrow> ('d \<Rightarrow> 'r \<times> 'd) \<Rightarrow> ('d, 's, 'a, 'e) world
   \<Rightarrow> 'r \<times> ('d, 's, 'a, 'e) world" where
  "invoke ev method w =
     (case method (backend w) of
        (r, d) \<Rightarrow> (r, w\<lparr>backend := d, trace := trace w @ [ev]\<rparr>))"

text \<open>
  Modelled from the spec: \<^verbatim>\<open>drivers.MachineInState\<close> (package \<^verbatim>\<open>drivers\<close> is not among the
  sources) queries the state of the backend and reports whether it is the desired
  one; a failed query counts as not being in the state.
\<close>

definition MachineInState ::
  "'d Driver \<Rightarrow> State \<Rightarrow> ('d, 's, 'a, 'e) world \<Rightarrow> bool \<times> ('d, 's, 'a, 'e) world" where
  "MachineInState d desiredState w =
     (case invoke Call_GetState (GetState d) w of
        (Inl err, w') \<Rightarrow> (False, w')
      | (Inr currentState, w') \<Rightarrow> (currentState = desiredState, w'))"

text \<open>
  Modelled from the spec: \<^verbatim>\<open>mcnutils.WaitFor\<close>, the Confirmation Poller (package
  \<^verbatim>\<open>mcnutils\<close> is not among the sources). It evaluates the predicate until it returns
  true, sleeping between evaluations, and fails with the \<^verbatim>\<open>Timeout\<close> error when the
  budget is used up.
\<close>

fun WaitFor_attempts ::
  "nat \<Rightarrow> (('d, 's, 'a, 'e) world \<Rightarrow> bool \<times> ('d, 's, 'a, 'e) world) \<Rightarrow> ('d, 's, 'a, 'e) world
   \<Rightarrow> error option \<times> ('d, 's, 'a, 'e) world" where
  "WaitFor_attempts 0 f w = (Some ErrTimeout, w)"
| "WaitFor_attempts (Suc n) f w =
     (case f w of
        (True, w') \<Rightarrow> (None, w')
      | (False, w') \<Rightarrow> WaitFor_attempts n f (record_event Call_Sleep w'))"

definition WaitFor ::
  "('d, 's, 'a, 'e) Env \<Rightarrow> (('d, 's, 'a, 'e) world \<Rightarrow> bool \<times> ('d, 's, 'a, 'e) world)
   \<Rightarrow> ('d, 's, 'a, 'e) world \<Rightarrow> error option \<times> ('d, 's, 'a, 'e) world" where
  "WaitFor env f w = WaitFor_attempts (maxAttempts env) f (record_event Call_WaitFor w)"

section \<open>The operations of \<^verbatim>\<open>Host\<close>\<close>

text \<open>
  \<^verbatim>\<open>CreateSSHClient\<close>. \<open>NewClient\<close> is \<^verbatim>\<open>ssh.NewClient\<close> (package \<^verbatim>\<open>ssh\<close> is not among the
  sources), \<open>'c\<close> the type of the client it builds. Where the source returns
  \<^verbatim>\<open>ssh.ExternalClient{}\<close> with an error, the model returns the error.
\<close>

definition CreateSSHClient ::
  "(string \<Rightarrow> string \<Rightarrow> int \<Rightarrow> ssh_Auth \<Rightarrow> error + 'c) \<Rightarrow> ('d, 's, 'a, 'e) world
   \<Rightarrow> (error + 'c) \<times> ('d, 's, 'a, 'e) world" where
  "CreateSSHClient NewClient w =
     (case invoke Call_GetSSHHostname (GetSSHHostname (Driver (host w))) w of
        (Inl err, w1) \<Rightarrow> (Inl err, w1)
      | (Inr addr, w1) \<Rightarrow>
          (case invoke Call_GetSSHPort (GetSSHPort (Driver (host w1))) w1 of
             (Inl err, w2) \<Rightarrow> (Inl err, w2)
           | (Inr port, w2) \<Rightarrow>
               (case invoke Call_GetSSHKeyPath (GetSSHKeyPath (Driver (host w2))) w2 of
                  (keyPath, w3) \<Rightarrow>
                    (case invoke Call_GetSSHUsername (GetSSHUsername (Driver (host w3))) w3 of
                       (username, w4) \<Rightarrow>
                         (NewClient username addr port \<lparr>Keys = [keyPath]\<rparr>, w4)))))"

definition runActionForState ::
  "('d, 's, 'a, 'e) Env
   \<Rightarrow> (('d, 's, 'a, 'e) world \<Rightarrow> error option \<times> ('d, 's, 'a, 'e) world) \<Rightarrow> State
   \<Rightarrow> ('d, 's, 'a, 'e) world \<Rightarrow> error option \<times> ('d, 's, 'a, 'e) world" where
  "runActionForState env action desiredState w =
     (case MachineInState (Driver (host w)) desiredState w of
        (True, w1) \<Rightarrow>
          (Some (errorString (''Machine '' @ Quote env (Name (host w1)) @ '' is already ''
                   @ ToLower (State_String desiredState) @ ''.'')), w1)
      | (False, w1) \<Rightarrow>
          (case action w1 of
             (Some err, w2) \<Rightarrow> (Some err, w2)
           | (None, w2) \<Rightarrow> WaitFor env (MachineInState (Driver (host w2)) desiredState) w2))"

definition Start ::
  "('d, 's, 'a, 'e) Env \<Rightarrow> ('d, 's, 'a, 'e) world \<Rightarrow> error option \<times> ('d, 's, 'a, 'e) world" where
  "Start env w = runActionForState env (invoke Call_Start (Driver_Start (Driver (host w)))) Running w"

definition Stop ::
  "('d, 's, 'a, 'e) Env \<Rightarrow> ('d, 's, 'a, 'e) world \<Rightarrow> error option \<times> ('d, 's, 'a, 'e) world" where
  "Stop env w = runActionForState env (invoke Call_Stop (Driver_Stop (Driver (host w)))) Stopped w"

definition Kill ::
  "('d, 's, 'a, 'e) Env \<Rightarrow> ('d, 's, 'a, 'e) world \<Rightarrow> error option \<times> ('d, 's, 'a, 'e) world" where
  "Kill env w = runActionForState env (invoke Call_Kill (Driver_Kill (Driver (host w)))) Stopped w"

text \<open>
  \<^verbatim>\<open>Restart\<close>. The inner \<open>case\<close> is the \<^verbatim>\<open>if\<close> block of the source: it yields an error
  where the block returns one, and \<open>None\<close> where control reaches the statement after
  the block.
\<close>

definition Restart ::
  "('d, 's, 'a, 'e) Env \<Rightarrow> ('d, 's, 'a, 'e) world \<Rightarrow> error option \<times> ('d, 's, 'a, 'e) world" where
  "Restart env w =
     (case (case MachineInState (Driver (host w)) Running w of
              (True, w1) \<Rightarrow>
                (case Stop env w1 of
                   (Some err, w2) \<Rightarrow> (Some err, w2)
                 | (None, w2) \<Rightarrow>
                     (case WaitFor env (MachineInState (Driver (host w2)) Stopped) w2 of
                        (Some err, w3) \<Rightarrow> (Some err, w3)
                      | (None, w3) \<Rightarrow> (None, w3)))
            | (False, w1) \<Rightarrow> (None, w1)) of
        (Some err, w4) \<Rightarrow> (Some err, w4)
      | (None, w4) \<Rightarrow>
          (case Start env w4 of
             (Some err, w5) \<Rightarrow> (Some err, w5)
           | (None, w5) \<Rightarrow>
               (case WaitFor env (MachineInState (Driver (host w5)) Running) w5 of
                  (Some err, w6) \<Rightarrow> (Some err, w6)
                | (None, w6) \<Rightarrow> (None, w6))))"

definition errMachineMustBeRunningForUpgrade :: error where
  "errMachineMustBeRunningForUpgrade = errorString ''Error: machine must be running to upgrade.''"

definition Upgrade ::
  "('d, 's, 'a, 'e) Env \<Rightarrow> ('d, 's, 'a, 'e) world \<Rightarrow> error option \<times> ('d, 's, 'a, 'e) world" where
  "Upgrade env w =
     (case invoke Call_GetState (GetState (Driver (host w))) w of
        (Inl err, w1) \<Rightarrow> (Some err, w1)
      | (Inr machineState, w1) \<Rightarrow>
          if machineState \<noteq> Running then (Some errMachineMustBeRunningForUpgrade, w1)
          else
            (case invoke Call_DetectProvisioner (DetectProvisioner env (Driver (host w1))) w1 of
               (Inl err, w2) \<Rightarrow> (Some err, w2)
             | (Inr provisioner, w2) \<Rightarrow>
                 (case invoke (Call_Package ''docker'' pkgaction_Upgrade)
                         (Package provisioner ''docker'' pkgaction_Upgrade)
                         (record_event (Log_Info ''Upgrading docker...'') w2) of
                    (Some err, w3) \<Rightarrow> (Some err, w3)
                  | (None, w3) \<Rightarrow>
                      invoke (Call_Service ''docker'' serviceaction_Restart)
                        (Service provisioner ''docker'' serviceaction_Restart)
                        (record_event (Log_Info ''Restarting docker...'') w3))))"

text \<open>
  \<^verbatim>\<open>ConfigureAuth\<close> dereferences \<^verbatim>\<open>h.HostOptions\<close>, its \<^verbatim>\<open>AuthOptions\<close> and its
  \<^verbatim>\<open>EngineOptions\<close> while it evaluates the arguments of \<^verbatim>\<open>Provision\<close>, from left to right
  and before the call: a nil pointer among them is a panic, \<open>Inl\<close> in the result.
\<close>

datatype panic = nil_pointer_dereference

definition ConfigureAuth ::
  "('d, 's, 'a, 'e) Env \<Rightarrow> ('d, 's, 'a, 'e) world
   \<Rightarrow> (panic + error option) \<times> ('d, 's, 'a, 'e) world" where
  "ConfigureAuth env w =
     (case invoke Call_DetectProvisioner (DetectProvisioner env (Driver (host w))) w of
        (Inl err, w1) \<Rightarrow> (Inr (Some err), w1)
      | (Inr provisioner, w1) \<Rightarrow>
          (case HostOptions (host w1) of
             None \<Rightarrow> (Inl nil_pointer_dereference, w1)
           | Some opts \<Rightarrow>
               (case AuthOptions opts of
                  None \<Rightarrow> (Inl nil_pointer_dereference, w1)
                | Some authOptions \<Rightarrow>
                    (case EngineOptions opts of
                       None \<Rightarrow> (Inl nil_pointer_dereference, w1)
                     | Some engineOptions \<Rightarrow>
                         (case invoke
                                 (Call_Provision (swarm_Options_zero env) authOptions engineOptions)
                                 (Provision provisioner (swarm_Options_zero env) authOptions
                                    engineOptions) w1 of
                            (Some err, w2) \<Rightarrow> (Inr (Some err), w2)
                          | (None, w2) \<Rightarrow> (Inr None, w2))))))"

text \<open>
  The calls of one guarded operation, in the order the specification gives them: the
  state query of the guard; then the mechanical action; then the poller, whose calls
  are state queries and sleeps.
\<close>

fun guard_action_poll :: "('s, 'a, 'e) event \<Rightarrow> ('s, 'a, 'e) event list \<Rightarrow> bool" where
  "guard_action_poll act [] = False"
| "guard_action_poll act [g] = (g = Call_GetState)"
| "guard_action_poll act [g, a] = (g = Call_GetState \<and> a = act)"
| "guard_action_poll act (g # a # p # polls) =
     (g = Call_GetState \<and> a = act \<and> p = Call_WaitFor
      \<and> list_all (\<lambda>ev. ev = Call_GetState \<or> ev = Call_Sleep) polls)"

section \<open>A scripted backend, for the examples\<close>

text \<open>
  The driver of the examples reports the states of a script, one at each query, and
  fails to answer once the script is used up; its actions and its provisioner return
  what they are told to return.
\<close>

definition test_Driver ::
  "error option \<Rightarrow> (error + string) \<Rightarrow> (error + int) \<Rightarrow> (State list) Driver" where
  "test_Driver action_result hostname port =
     \<lparr>GetState = (\<lambda>d. case d of [] \<Rightarrow> (Inl (errorString ''no answer''), [])
                               | s # d' \<Rightarrow> (Inr s, d')),
      Driver_Start = (\<lambda>d. (action_result, d)),
      Driver_Stop = (\<lambda>d. (action_result, d)),
      Driver_Kill = (\<lambda>d. (action_result, d)),
      GetSSHHostname = (\<lambda>d. (hostname, d)),
      GetSSHPort = (\<lambda>d. (port, d)),
      GetSSHKeyPath = (\<lambda>d. (''/home/u/.docker/machine/machines/dev/id_rsa'', d)),
      GetSSHUsername = (\<lambda>d. (''docker'', d))\<rparr>"

definition test_Provisioner ::
  "error option \<Rightarrow> (State list, string list, string, string) Provisioner" where
  "test_Provisioner result =
     \<lparr>Package = (\<lambda>name action d. (result, d)),
      Service = (\<lambda>name action d. (None, d)),
      Provision = (\<lambda>swarmOptions authOptions engineOptions d. (result, d))\<rparr>"

definition test_Env ::
  "(error + (State list, string list, string, string) Provisioner)
   \<Rightarrow> (State list, string list, string, string) Env" where
  "test_Env detected =
     \<lparr>Quote = (\<lambda>s. [CHR 0x22] @ s @ [CHR 0x22]),
      maxAttempts = 3,
      DetectProvisioner = (\<lambda>d b. (detected, b)),
      swarm_Options_zero = []\<rparr>"

definition test_Host ::
  "(State list) Driver \<Rightarrow> (string list, string, string) Options option
   \<Rightarrow> (State list, string list, string, string) Host" where
  "test_Host d opts =
     \<lparr>ConfigVersion = 3, Driver = d, DriverName = ''virtualbox'', HostOptions = opts,
      Name = ''dev'', RawDriver = []\<rparr>"

definition test_world ::
  "(State list) Driver \<Rightarrow> State list \<Rightarrow> (State list, string list, string, string) world" where
  "test_world d states =
     \<lparr>host = test_Host d (Some \<lparr>Options_Driver = ''virtualbox'', Memory = 1024, Disk = 20000,
                                 EngineOptions = Some ''engine'', SwarmOptions = None,
                                 AuthOptions = Some ''auth''\<rparr>),
      backend = states, trace = []\<rparr>"

abbreviation dev_Driver :: "(State list) Driver" where
  "dev_Driver \<equiv> test_Driver None (Inr ''192.168.99.100'') (Inr 22)"

definition test_NewClient ::
  "string \<Rightarrow> string \<Rightarrow> int \<Rightarrow> ssh_Auth \<Rightarrow> error + string \<times> string \<times> int \<times> string list" where
  "test_NewClient username addr port auth = Inr (username, addr, port, Keys auth)"

section \<open>Properties of name validation\<close>

lemma in_class_alnum: "in_class alnum_ranges c = alphanumeric c"
  by (simp add: alnum_ranges_def alphanumeric_def)

lemma in_class_append: "in_class (rs @ rs') c = (in_class rs c \<or> in_class rs' c)"
  by (induction rs) auto

lemma in_class_rest:
  "in_class (alnum_ranges @ [(CHR ''-'', CHR ''-''), (CHR ''.'', CHR ''.'')]) =
     (\<lambda>x. alphanumeric x \<or> x = CHR ''-'' \<or> x = CHR ''.'')"
  by (rule ext) (auto simp: in_class_append in_class_alnum)

lemma star_to_end: "match_here [OpStar cl, OpEndText] at_start s = list_all (in_class cl) s"
  by (induction s arbitrary: at_start) auto

lemma pattern_not_at_start: "match_here validHostNamePattern False s = False"
  by (simp add: validHostNamePattern_def)

lemma pattern_later_start: "match_from validHostNamePattern False s = False"
  by (induction s) (simp_all add: pattern_not_at_start)

lemma pattern_at_start:
  "match_here validHostNamePattern True s = hostname_like s"
proof (cases s)
  case Nil
  then show ?thesis by (simp add: validHostNamePattern_def)
next
  case (Cons c cs)
  have "match_here validHostNamePattern True (c # cs) =
          (in_class alnum_ranges c \<and>
           match_here [OpStar (alnum_ranges @ [(CHR ''-'', CHR ''-''), (CHR ''.'', CHR ''.'')]),
                       OpEndText] False cs)"
    by (simp add: validHostNamePattern_def)
  also have "\<dots> = hostname_like (c # cs)"
    by (simp add: star_to_end in_class_rest in_class_alnum)
  finally show ?thesis using Cons by simp
qed

text \<open>
  C9. For every string \<open>s\<close>, \<^verbatim>\<open>ValidateHostName\<close> accepts \<open>s\<close> if and only if \<open>s\<close> starts
  with an alphanumeric character (a-z, A-Z, 0-9) followed by zero or more characters
  each of which is an alphanumeric, a hyphen, or a dot.
\<close>

theorem ValidateHostName_iff_hostname_like:
  "ValidateHostName s = hostname_like s"
proof (cases s)
  case Nil
  then show ?thesis
    by (simp add: ValidateHostName_def MatchString_def validHostNamePattern_def)
next
  case (Cons c cs)
  then show ?thesis
    by (simp add: ValidateHostName_def MatchString_def pattern_at_start [of "c # cs", simplified]
        pattern_later_start)
qed

theorem ValidateHostName_iff_hostname_like_witness:
  "ValidateHostName ''dev-1.local'' \<and> \<not> ValidateHostName ''-dev'' \<and> \<not> ValidateHostName ''a_b''
   \<and> \<not> ValidateHostName ''''"
  by (simp add: ValidateHostName_iff_hostname_like alphanumeric_def)

section \<open>Properties of the operations\<close>

lemmas test_defs = test_Driver_def test_Provisioner_def test_Env_def test_Host_def test_world_def

lemma invoke_eq:
  "invoke ev method w =
     (fst (method (backend w)), w\<lparr>backend := snd (method (backend w)), trace := trace w @ [ev]\<rparr>)"
  by (simp add: invoke_def split: prod.splits)

lemma MachineInState_eq:
  "MachineInState d desiredState w =
     (fst (GetState d (backend w)) = Inr desiredState,
      w\<lparr>backend := snd (GetState d (backend w)), trace := trace w @ [Call_GetState]\<rparr>)"
  by (cases "GetState d (backend w)") (auto simp: MachineInState_def invoke_def split: sum.splits)

lemma ToLower_Running: "ToLower ''Running'' = ''running''"
  by (simp add: ToLower_def)

lemma ToLower_Stopped: "ToLower ''Stopped'' = ''stopped''"
  by (simp add: ToLower_def)

lemma runActionForState_already:
  assumes "fst (GetState (Driver (host w)) (backend w)) = Inr target"
  shows "runActionForState env action target w =
           (Some (errorString (''Machine '' @ Quote env (Name (host w)) @ '' is already ''
                    @ ToLower (State_String target) @ ''.'')),
            w\<lparr>backend := snd (GetState (Driver (host w)) (backend w)),
              trace := trace w @ [Call_GetState]\<rparr>)"
  using assms by (simp add: runActionForState_def MachineInState_eq)


text \<open>
  C1. For every machine whose currently observed state already equals the target state
  of the requested operation, \<^verbatim>\<open>Start\<close> (target Running), \<^verbatim>\<open>Stop\<close> (target Stopped) and
  \<^verbatim>\<open>Kill\<close> (target Stopped) each fail with the error reading
  \<^verbatim>\<open>Machine <name> is already <state>.\<close> (the name as \<^verbatim>\<open>%q\<close> prints it, the state in lower
  case); the one call made is the state query of the guard: no mechanical action is
  invoked on the backend and no confirmation polling occurs.
\<close>

theorem already_in_target_state:
  fixes env :: "('d, 's, 'a, 'e) Env" and w :: "('d, 's, 'a, 'e) world"
  shows
  "(fst (GetState (Driver (host w)) (backend w)) = Inr Running \<longrightarrow>
      Start env w =
        (Some (errorString (''Machine '' @ Quote env (Name (host w)) @ '' is already running.'')),
         w\<lparr>backend := snd (GetState (Driver (host w)) (backend w)),
           trace := trace w @ [Call_GetState]\<rparr>))
   \<and> (fst (GetState (Driver (host w)) (backend w)) = Inr Stopped \<longrightarrow>
      Stop env w =
        (Some (errorString (''Machine '' @ Quote env (Name (host w)) @ '' is already stopped.'')),
         w\<lparr>backend := snd (GetState (Driver (host w)) (backend w)),
           trace := trace w @ [Call_GetState]\<rparr>)
      \<and> Kill env w =
        (Some (errorString (''Machine '' @ Quote env (Name (host w)) @ '' is already stopped.'')),
         w\<lparr>backend := snd (GetState (Driver (host w)) (backend w)),
           trace := trace w @ [Call_GetState]\<rparr>))"
  by (simp add: Start_def Stop_def Kill_def runActionForState_already ToLower_Running
      ToLower_Stopped)

theorem already_in_target_state_witness:
  "fst (GetState (Driver (host (test_world (dev_Driver) [Running])))
          (backend (test_world (dev_Driver) [Running]))) = Inr Running
   \<and> fst (Start (test_Env (Inr (test_Provisioner None)))
            (test_world (dev_Driver) [Running]))
       = Some (errorString (''Machine '' @ [CHR 0x22] @ ''dev'' @ [CHR 0x22] @ '' is already running.''))
   \<and> trace (snd (Start (test_Env (Inr (test_Provisioner None)))
            (test_world (dev_Driver) [Running]))) = [Call_GetState]
   \<and> fst (GetState (Driver (host (test_world (dev_Driver) [Stopped])))
          (backend (test_world (dev_Driver) [Stopped]))) = Inr Stopped
   \<and> fst (Stop (test_Env (Inr (test_Provisioner None)))
            (test_world (dev_Driver) [Stopped]))
       = Some (errorString (''Machine '' @ [CHR 0x22] @ ''dev'' @ [CHR 0x22] @ '' is already stopped.''))
   \<and> trace (snd (Kill (test_Env (Inr (test_Provisioner None)))
            (test_world (dev_Driver) [Stopped]))) = [Call_GetState]"
proof -
  have r: "fst (GetState (Driver (host (test_world (dev_Driver) [Running])))
          (backend (test_world (dev_Driver) [Running]))) = Inr Running"
    by (simp add: test_defs)
  have s: "fst (GetState (Driver (host (test_world (dev_Driver) [Stopped])))
          (backend (test_world (dev_Driver) [Stopped]))) = Inr Stopped"
    by (simp add: test_defs)
  show ?thesis
    using r s
      already_in_target_state [of "test_world (dev_Driver) [Running]"
        "test_Env (Inr (test_Provisioner None))"]
      already_in_target_state [of "test_world (dev_Driver) [Stopped]"
        "test_Env (Inr (test_Provisioner None))"]
    by (simp add: test_defs)
qed

text \<open>
  C3. For every machine whose queried state is not Running, \<^verbatim>\<open>Upgrade\<close> fails with the
  error \<^verbatim>\<open>Error: machine must be running to upgrade.\<close>, and the state query is the one
  call it makes: neither the \<^verbatim>\<open>Package\<close> nor the \<^verbatim>\<open>Service\<close> action of a provisioner
  is invoked.
\<close>

theorem Upgrade_not_running:
  assumes "fst (GetState (Driver (host w)) (backend w)) = Inr machineState"
    and "machineState \<noteq> Running"
  shows "Upgrade env w =
           (Some (errorString ''Error: machine must be running to upgrade.''),
            w\<lparr>backend := snd (GetState (Driver (host w)) (backend w)),
              trace := trace w @ [Call_GetState]\<rparr>)"
  using assms
  by (cases "GetState (Driver (host w)) (backend w)")
     (simp add: Upgrade_def invoke_def errMachineMustBeRunningForUpgrade_def)

theorem Upgrade_not_running_witness:
  "fst (GetState (Driver (host (test_world dev_Driver [Stopped])))
          (backend (test_world dev_Driver [Stopped]))) = Inr Stopped
   \<and> Stopped \<noteq> Running
   \<and> fst (Upgrade (test_Env (Inr (test_Provisioner None))) (test_world dev_Driver [Stopped]))
       = Some (errorString ''Error: machine must be running to upgrade.'')
   \<and> trace (snd (Upgrade (test_Env (Inr (test_Provisioner None)))
              (test_world dev_Driver [Stopped]))) = [Call_GetState]"
proof -
  have q: "fst (GetState (Driver (host (test_world dev_Driver [Stopped])))
          (backend (test_world dev_Driver [Stopped]))) = Inr Stopped"
    by (simp add: test_defs)
  have n: "Stopped \<noteq> Running" by simp
  show ?thesis
    using q Upgrade_not_running [OF q n, of "test_Env (Inr (test_Provisioner None))"]
    by (simp add: test_defs)
qed

text \<open>
  C10. If the initial state query of \<^verbatim>\<open>Upgrade\<close> returns an error, \<^verbatim>\<open>Upgrade\<close> fails with
  exactly that error, and the query is the one call it makes: neither provisioner
  detection nor the \<^verbatim>\<open>Package\<close> or \<^verbatim>\<open>Service\<close> action is invoked.
\<close>

theorem Upgrade_state_query_fails:
  assumes "fst (GetState (Driver (host w)) (backend w)) = Inl err"
  shows "Upgrade env w =
           (Some err,
            w\<lparr>backend := snd (GetState (Driver (host w)) (backend w)),
              trace := trace w @ [Call_GetState]\<rparr>)"
  using assms
  by (cases "GetState (Driver (host w)) (backend w)") (simp add: Upgrade_def invoke_def)

theorem Upgrade_state_query_fails_witness:
  "fst (GetState (Driver (host (test_world dev_Driver [])))
          (backend (test_world dev_Driver []))) = Inl (errorString ''no answer'')
   \<and> fst (Upgrade (test_Env (Inr (test_Provisioner None))) (test_world dev_Driver []))
       = Some (errorString ''no answer'')
   \<and> errorString ''no answer'' \<noteq> errMachineMustBeRunningForUpgrade
   \<and> trace (snd (Upgrade (test_Env (Inr (test_Provisioner None)))
              (test_world dev_Driver []))) = [Call_GetState]"
proof -
  have q: "fst (GetState (Driver (host (test_world dev_Driver [])))
          (backend (test_world dev_Driver []))) = Inl (errorString ''no answer'')"
    by (simp add: test_defs)
  show ?thesis
    using q Upgrade_state_query_fails [OF q, of "test_Env (Inr (test_Provisioner None))"]
    by (simp add: test_defs errMachineMustBeRunningForUpgrade_def)
qed

text \<open>
  C4. For every machine whose queried state is Running and for which provisioner
  detection succeeds, \<^verbatim>\<open>Upgrade\<close> invokes the \<^verbatim>\<open>Package\<close> upgrade action for the package
  \<^verbatim>\<open>docker\<close> before the \<^verbatim>\<open>Service\<close> restart action for the service \<^verbatim>\<open>docker\<close>; if the
  \<^verbatim>\<open>Package\<close> step fails, \<^verbatim>\<open>Upgrade\<close> returns that step's error and the \<^verbatim>\<open>Service\<close> action
  is not invoked; otherwise it returns what the \<^verbatim>\<open>Service\<close> step returns.
\<close>

theorem Upgrade_Package_before_Service:
  assumes "GetState (Driver (host w)) (backend w) = (Inr Running, d1)"
    and "DetectProvisioner env (Driver (host w)) d1 = (Inr provisioner, d2)"
  shows
  "(Package provisioner ''docker'' pkgaction_Upgrade d2 = (Some err, d3) \<longrightarrow>
      Upgrade env w =
        (Some err,
         w\<lparr>backend := d3,
           trace := trace w @ [Call_GetState, Call_DetectProvisioner,
                               Log_Info ''Upgrading docker...'',
                               Call_Package ''docker'' pkgaction_Upgrade]\<rparr>))
   \<and> (Package provisioner ''docker'' pkgaction_Upgrade d2 = (None, d4) \<longrightarrow>
      Upgrade env w =
        (fst (Service provisioner ''docker'' serviceaction_Restart d4),
         w\<lparr>backend := snd (Service provisioner ''docker'' serviceaction_Restart d4),
           trace := trace w @ [Call_GetState, Call_DetectProvisioner,
                               Log_Info ''Upgrading docker...'',
                               Call_Package ''docker'' pkgaction_Upgrade,
                               Log_Info ''Restarting docker...'',
                               Call_Service ''docker'' serviceaction_Restart]\<rparr>))"
  using assms by (simp add: Upgrade_def invoke_eq record_event_def)

theorem Upgrade_Package_before_Service_witness:
  "GetState (Driver (host (test_world dev_Driver [Running])))
      (backend (test_world dev_Driver [Running])) = (Inr Running, [])
   \<and> DetectProvisioner (test_Env (Inr (test_Provisioner (Some (errorString ''apt failed'')))))
        (Driver (host (test_world dev_Driver [Running]))) []
       = (Inr (test_Provisioner (Some (errorString ''apt failed''))), [])
   \<and> Package (test_Provisioner (Some (errorString ''apt failed''))) ''docker'' pkgaction_Upgrade []
       = (Some (errorString ''apt failed''), [])
   \<and> Upgrade (test_Env (Inr (test_Provisioner (Some (errorString ''apt failed'')))))
        (test_world dev_Driver [Running])
       = (Some (errorString ''apt failed''),
          (test_world dev_Driver [Running])
            \<lparr>backend := [],
              trace := [Call_GetState, Call_DetectProvisioner, Log_Info ''Upgrading docker...'',
                        Call_Package ''docker'' pkgaction_Upgrade]\<rparr>)
   \<and> DetectProvisioner (test_Env (Inr (test_Provisioner None)))
        (Driver (host (test_world dev_Driver [Running]))) []
       = (Inr (test_Provisioner None), [])
   \<and> Package (test_Provisioner None) ''docker'' pkgaction_Upgrade [] = (None, [])
   \<and> Upgrade (test_Env (Inr (test_Provisioner None))) (test_world dev_Driver [Running])
       = (None,
          (test_world dev_Driver [Running])
            \<lparr>backend := [],
              trace := [Call_GetState, Call_DetectProvisioner, Log_Info ''Upgrading docker...'',
                        Call_Package ''docker'' pkgaction_Upgrade,
                        Log_Info ''Restarting docker...'',
                        Call_Service ''docker'' serviceaction_Restart]\<rparr>)"
proof -
  have q: "GetState (Driver (host (test_world dev_Driver [Running])))
      (backend (test_world dev_Driver [Running])) = (Inr Running, [])"
    by (simp add: test_defs)
  have f: "DetectProvisioner (test_Env (Inr (test_Provisioner (Some (errorString ''apt failed'')))))
        (Driver (host (test_world dev_Driver [Running]))) []
       = (Inr (test_Provisioner (Some (errorString ''apt failed''))), [])"
    by (simp add: test_Env_def)
  have g: "DetectProvisioner (test_Env (Inr (test_Provisioner None)))
        (Driver (host (test_world dev_Driver [Running]))) []
       = (Inr (test_Provisioner None), [])"
    by (simp add: test_Env_def)
  show ?thesis
    using q f g
      Upgrade_Package_before_Service [OF q f, of "errorString ''apt failed''" "[]"]
      Upgrade_Package_before_Service [OF q g, of _ _ "[]"]
    by (simp add: test_Provisioner_def test_world_def)
qed

text \<open>
  C8. \<^verbatim>\<open>CreateSSHClient\<close> queries the SSH hostname of the backend before its SSH port; if
  the hostname query fails, it fails with that error and the port is not queried; if
  the hostname query succeeds and the port query fails, it fails with the error of the
  port query; otherwise it returns what \<^verbatim>\<open>ssh.NewClient\<close> builds from the username, the
  hostname, the port and the key path that the backend reports.
\<close>

theorem CreateSSHClient_hostname_then_port:
  "(GetSSHHostname (Driver (host w)) (backend w) = (Inl err, d1) \<longrightarrow>
      CreateSSHClient NewClient w =
        (Inl err, w\<lparr>backend := d1, trace := trace w @ [Call_GetSSHHostname]\<rparr>))
   \<and> (GetSSHHostname (Driver (host w)) (backend w) = (Inr addr, d1)
      \<and> GetSSHPort (Driver (host w)) d1 = (Inl err, d2) \<longrightarrow>
      CreateSSHClient NewClient w =
        (Inl err, w\<lparr>backend := d2, trace := trace w @ [Call_GetSSHHostname, Call_GetSSHPort]\<rparr>))
   \<and> (GetSSHHostname (Driver (host w)) (backend w) = (Inr addr, d1)
      \<and> GetSSHPort (Driver (host w)) d1 = (Inr port, d2)
      \<and> GetSSHKeyPath (Driver (host w)) d2 = (keyPath, d3)
      \<and> GetSSHUsername (Driver (host w)) d3 = (username, d4) \<longrightarrow>
      CreateSSHClient NewClient w =
        (NewClient username addr port \<lparr>Keys = [keyPath]\<rparr>,
         w\<lparr>backend := d4,
           trace := trace w @ [Call_GetSSHHostname, Call_GetSSHPort, Call_GetSSHKeyPath,
                               Call_GetSSHUsername]\<rparr>))"
  by (simp add: CreateSSHClient_def invoke_def)

theorem CreateSSHClient_hostname_then_port_witness:
  "CreateSSHClient test_NewClient
      (test_world (test_Driver None (Inl (errorString ''no IP'')) (Inl (errorString ''no port''))) [])
     = (Inl (errorString ''no IP''),
        (test_world (test_Driver None (Inl (errorString ''no IP'')) (Inl (errorString ''no port''))) [])
          \<lparr>backend := [], trace := [Call_GetSSHHostname]\<rparr>)
   \<and> CreateSSHClient test_NewClient
      (test_world (test_Driver None (Inr ''192.168.99.100'') (Inl (errorString ''no port''))) [])
     = (Inl (errorString ''no port''),
        (test_world (test_Driver None (Inr ''192.168.99.100'') (Inl (errorString ''no port''))) [])
          \<lparr>backend := [], trace := [Call_GetSSHHostname, Call_GetSSHPort]\<rparr>)
   \<and> CreateSSHClient test_NewClient (test_world dev_Driver [])
     = (Inr (''docker'', ''192.168.99.100'', 22, [''/home/u/.docker/machine/machines/dev/id_rsa'']),
        (test_world dev_Driver [])
          \<lparr>backend := [],
            trace := [Call_GetSSHHostname, Call_GetSSHPort, Call_GetSSHKeyPath,
                      Call_GetSSHUsername]\<rparr>)"
  using
    CreateSSHClient_hostname_then_port
      [of "test_world (test_Driver None (Inl (errorString ''no IP'')) (Inl (errorString ''no port''))) []"
          "errorString ''no IP''" "[]" test_NewClient]
    CreateSSHClient_hostname_then_port
      [of "test_world (test_Driver None (Inr ''192.168.99.100'') (Inl (errorString ''no port''))) []"
          "errorString ''no port''" "[]" test_NewClient "''192.168.99.100''" "[]"]
    CreateSSHClient_hostname_then_port
      [of "test_world dev_Driver []" _ "[]" test_NewClient "''192.168.99.100''" "[]" 22
          "''/home/u/.docker/machine/machines/dev/id_rsa''" "[]" "''docker''" "[]"]
  by (simp add: test_defs test_NewClient_def)

text \<open>
  C7. For every machine, \<^verbatim>\<open>ConfigureAuth\<close> first detects the provisioner, and an error of
  the detection is returned as it is, with no further call. After a successful
  detection it invokes \<^verbatim>\<open>Provision\<close> of the detected provisioner with the empty
  \<^verbatim>\<open>swarm.Options{}\<close> and with the auth and engine options of the machine (the values
  \<^verbatim>\<open>h.HostOptions.AuthOptions\<close> and \<^verbatim>\<open>h.HostOptions.EngineOptions\<close> point to), and returns
  what \<^verbatim>\<open>Provision\<close> returns, an error as it is. \<^verbatim>\<open>ConfigureAuth\<close> succeeds exactly when
  both steps succeed.
\<close>

theorem ConfigureAuth_detects_then_provisions:
  "(DetectProvisioner env (Driver (host w)) (backend w) = (Inl err, d1) \<longrightarrow>
      ConfigureAuth env w =
        (Inr (Some err), w\<lparr>backend := d1, trace := trace w @ [Call_DetectProvisioner]\<rparr>))
   \<and> (DetectProvisioner env (Driver (host w)) (backend w) = (Inr provisioner, d1)
      \<and> HostOptions (host w) = Some opts
      \<and> AuthOptions opts = Some authOptions
      \<and> EngineOptions opts = Some engineOptions \<longrightarrow>
      ConfigureAuth env w =
        (Inr (fst (Provision provisioner (swarm_Options_zero env) authOptions engineOptions d1)),
         w\<lparr>backend :=
             snd (Provision provisioner (swarm_Options_zero env) authOptions engineOptions d1),
           trace := trace w @ [Call_DetectProvisioner,
                               Call_Provision (swarm_Options_zero env) authOptions
                                 engineOptions]\<rparr>))
   \<and> (fst (ConfigureAuth env w) = Inr None \<longleftrightarrow>
        (\<exists>p os a e.
           fst (DetectProvisioner env (Driver (host w)) (backend w)) = Inr p
           \<and> HostOptions (host w) = Some os \<and> AuthOptions os = Some a \<and> EngineOptions os = Some e
           \<and> fst (Provision p (swarm_Options_zero env) a e
                    (snd (DetectProvisioner env (Driver (host w)) (backend w)))) = None))"
proof -
  obtain r d where det: "DetectProvisioner env (Driver (host w)) (backend w) = (r, d)"
    by (cases "DetectProvisioner env (Driver (host w)) (backend w)")
  show ?thesis
  proof (cases r)
    case (Inl e)
    with det show ?thesis by (simp add: ConfigureAuth_def invoke_def)
  next
    case (Inr p)
    with det show ?thesis
      by (auto simp: ConfigureAuth_def invoke_def split: option.splits prod.splits)
  qed
qed

theorem ConfigureAuth_detects_then_provisions_witness:
  "ConfigureAuth (test_Env (Inl (errorString ''no provisioner''))) (test_world dev_Driver [])
       = (Inr (Some (errorString ''no provisioner'')),
          (test_world dev_Driver []) \<lparr>backend := [], trace := [Call_DetectProvisioner]\<rparr>)
   \<and> HostOptions (host (test_world dev_Driver [])) =
      Some \<lparr>Options_Driver = ''virtualbox'', Memory = 1024, Disk = 20000,
            EngineOptions = Some ''engine'', SwarmOptions = None, AuthOptions = Some ''auth''\<rparr>
   \<and> ConfigureAuth (test_Env (Inr (test_Provisioner (Some (errorString ''no certs'')))))
        (test_world dev_Driver [])
       = (Inr (Some (errorString ''no certs'')),
          (test_world dev_Driver [])
            \<lparr>backend := [],
              trace := [Call_DetectProvisioner, Call_Provision [] ''auth'' ''engine'']\<rparr>)
   \<and> ConfigureAuth (test_Env (Inr (test_Provisioner None))) (test_world dev_Driver [])
       = (Inr None,
          (test_world dev_Driver [])
            \<lparr>backend := [],
              trace := [Call_DetectProvisioner, Call_Provision [] ''auth'' ''engine'']\<rparr>)"
  using
    ConfigureAuth_detects_then_provisions
      [of "test_Env (Inl (errorString ''no provisioner''))" "test_world dev_Driver []"
          "errorString ''no provisioner''" "[]"]
    ConfigureAuth_detects_then_provisions
      [of "test_Env (Inr (test_Provisioner (Some (errorString ''no certs''))))"
          "test_world dev_Driver []" _ "[]" "test_Provisioner (Some (errorString ''no certs''))"
          "\<lparr>Options_Driver = ''virtualbox'', Memory = 1024, Disk = 20000,
            EngineOptions = Some ''engine'', SwarmOptions = None, AuthOptions = Some ''auth''\<rparr>"
          "''auth''" "''engine''"]
    ConfigureAuth_detects_then_provisions
      [of "test_Env (Inr (test_Provisioner None))" "test_world dev_Driver []" _ "[]"
          "test_Provisioner None"
          "\<lparr>Options_Driver = ''virtualbox'', Memory = 1024, Disk = 20000,
            EngineOptions = Some ''engine'', SwarmOptions = None, AuthOptions = Some ''auth''\<rparr>"
          "''auth''" "''engine''"]
  by (simp add: test_defs)

text \<open>
  Where one of the three pointers is nil the machine has no such options to pass: after
  a successful detection the dereference panics, and \<^verbatim>\<open>Provision\<close> is not invoked.
\<close>

lemma ConfigureAuth_nil_options:
  assumes "DetectProvisioner env (Driver (host w)) (backend w) = (Inr provisioner, d1)"
    and "HostOptions (host w) = None
         \<or> (\<exists>opts. HostOptions (host w) = Some opts
               \<and> (AuthOptions opts = None \<or> EngineOptions opts = None))"
  shows "ConfigureAuth env w =
           (Inl nil_pointer_dereference,
            w\<lparr>backend := d1, trace := trace w @ [Call_DetectProvisioner]\<rparr>)"
  using assms by (auto simp: ConfigureAuth_def invoke_def split: option.splits)

lemma WaitFor_attempts_trace:
  fixes w :: "('d, 's, 'a, 'e) world"
  shows "\<exists>polls. trace (snd (WaitFor_attempts n (MachineInState d s) w)) = trace w @ polls
           \<and> list_all (\<lambda>ev. ev = Call_GetState \<or> ev = Call_Sleep) polls"
proof (induction n arbitrary: w)
  case 0
  then show ?case by simp
next
  case (Suc n)
  let ?w1 = "w\<lparr>backend := snd (GetState d (backend w)), trace := trace w @ [Call_GetState]\<rparr>"
  show ?case
  proof (cases "fst (GetState d (backend w)) = Inr s")
    case True
    then show ?thesis
      by (intro exI [of _ "[Call_GetState]"]) (simp add: MachineInState_eq [of d s w])
  next
    case False
    then have step: "WaitFor_attempts (Suc n) (MachineInState d s) w
                       = WaitFor_attempts n (MachineInState d s) (record_event Call_Sleep ?w1)"
      by (simp add: MachineInState_eq [of d s w])
    from Suc.IH [of "record_event Call_Sleep ?w1"]
    obtain polls where
      t: "trace (snd (WaitFor_attempts n (MachineInState d s) (record_event Call_Sleep ?w1)))
            = trace (record_event Call_Sleep ?w1) @ polls"
      and p: "list_all (\<lambda>ev. ev = Call_GetState \<or> ev = Call_Sleep) polls"
      by blast
    from step t p show ?thesis
      by (intro exI [of _ "Call_GetState # Call_Sleep # polls"]) (simp add: record_event_def)
  qed
qed

lemma runActionForState_trace:
  fixes w :: "('d, 's, 'a, 'e) world"
  shows "\<exists>evs. trace (snd (runActionForState env (invoke act m) s w)) = trace w @ evs
         \<and> guard_action_poll act evs"
proof (cases "fst (GetState (Driver (host w)) (backend w)) = Inr s")
  case True
  then show ?thesis
    by (intro exI [of _ "[Call_GetState]"])
       (simp add: runActionForState_def MachineInState_eq [of _ s w])
next
  case False
  let ?w1 = "w\<lparr>backend := snd (GetState (Driver (host w)) (backend w)),
               trace := trace w @ [Call_GetState]\<rparr>"
  let ?w2 = "w\<lparr>backend := snd (m (backend ?w1)), trace := trace w @ [Call_GetState, act]\<rparr>"
  show ?thesis
  proof (cases "fst (m (backend ?w1))")
    case (Some err)
    with False show ?thesis
      by (intro exI [of _ "[Call_GetState, act]"])
         (simp add: runActionForState_def MachineInState_eq [of _ s w] invoke_eq)
  next
    case None
    with False
    have run: "runActionForState env (invoke act m) s w
                 = WaitFor_attempts (maxAttempts env) (MachineInState (Driver (host w)) s)
                     (record_event Call_WaitFor ?w2)"
      by (simp add: runActionForState_def MachineInState_eq [of _ s w] invoke_eq WaitFor_def)
    from WaitFor_attempts_trace
      [of "maxAttempts env" "Driver (host w)" s "record_event Call_WaitFor ?w2"]
    obtain polls where
      t: "trace (snd (WaitFor_attempts (maxAttempts env) (MachineInState (Driver (host w)) s)
                        (record_event Call_WaitFor ?w2)))
            = trace (record_event Call_WaitFor ?w2) @ polls"
      and p: "list_all (\<lambda>ev. ev = Call_GetState \<or> ev = Call_Sleep) polls"
      by blast
    from run t p show ?thesis
      by (intro exI [of _ "Call_GetState # act # Call_WaitFor # polls"])
         (simp add: record_event_def)
  qed
qed

lemma runActionForState_action_fails:
  assumes "fst (GetState (Driver (host w)) (backend w)) \<noteq> Inr s"
    and "m (snd (GetState (Driver (host w)) (backend w))) = (Some err, d2)"
  shows "runActionForState env (invoke act m) s w =
           (Some err, w\<lparr>backend := d2, trace := trace w @ [Call_GetState, act]\<rparr>)"
  using assms by (simp add: runActionForState_def MachineInState_eq [of _ s w] invoke_eq)

text \<open>
  C5. Within every \<^verbatim>\<open>Start\<close>, \<^verbatim>\<open>Stop\<close> or \<^verbatim>\<open>Kill\<close> the guard check precedes the mechanical
  action of the backend, which precedes confirmation polling. If the guard passes (the
  query does not report the target state; so a machine in Error state and \<^verbatim>\<open>Stop\<close>) and
  the mechanical action returns an error, the operation fails with exactly that error
  and no confirmation poll is attempted: after the guard's query the action is the last
  call.
\<close>

theorem guard_then_action_then_poll:
  fixes env :: "('d, 's, 'a, 'e) Env" and w :: "('d, 's, 'a, 'e) world"
  shows
  "(fst (GetState (Driver (host w)) (backend w)) \<noteq> Inr Running
      \<and> Driver_Start (Driver (host w)) (snd (GetState (Driver (host w)) (backend w)))
          = (Some err, d2) \<longrightarrow>
      Start env w =
        (Some err, w\<lparr>backend := d2, trace := trace w @ [Call_GetState, Call_Start]\<rparr>))
   \<and> (fst (GetState (Driver (host w)) (backend w)) \<noteq> Inr Stopped
      \<and> Driver_Stop (Driver (host w)) (snd (GetState (Driver (host w)) (backend w)))
          = (Some err, d2) \<longrightarrow>
      Stop env w =
        (Some err, w\<lparr>backend := d2, trace := trace w @ [Call_GetState, Call_Stop]\<rparr>))
   \<and> (fst (GetState (Driver (host w)) (backend w)) \<noteq> Inr Stopped
      \<and> Driver_Kill (Driver (host w)) (snd (GetState (Driver (host w)) (backend w)))
          = (Some err, d2) \<longrightarrow>
      Kill env w =
        (Some err, w\<lparr>backend := d2, trace := trace w @ [Call_GetState, Call_Kill]\<rparr>))
   \<and> (\<exists>evs. trace (snd (Start env w)) = trace w @ evs \<and> guard_action_poll Call_Start evs)
   \<and> (\<exists>evs. trace (snd (Stop env w)) = trace w @ evs \<and> guard_action_poll Call_Stop evs)
   \<and> (\<exists>evs. trace (snd (Kill env w)) = trace w @ evs \<and> guard_action_poll Call_Kill evs)"
  by (simp add: Start_def Stop_def Kill_def runActionForState_action_fails
      runActionForState_trace)

theorem guard_then_action_then_poll_witness:
  "fst (GetState (Driver (host (test_world
          (test_Driver (Some (errorString ''VM is locked'')) (Inr ''h'') (Inr 22)) [Error])))
        (backend (test_world
          (test_Driver (Some (errorString ''VM is locked'')) (Inr ''h'') (Inr 22)) [Error])))
     \<noteq> Inr Stopped
   \<and> Stop (test_Env (Inr (test_Provisioner None)))
       (test_world (test_Driver (Some (errorString ''VM is locked'')) (Inr ''h'') (Inr 22)) [Error])
     = (Some (errorString ''VM is locked''),
        (test_world (test_Driver (Some (errorString ''VM is locked'')) (Inr ''h'') (Inr 22)) [Error])
          \<lparr>backend := [], trace := [Call_GetState, Call_Stop]\<rparr>)
   \<and> Kill (test_Env (Inr (test_Provisioner None)))
       (test_world (test_Driver (Some (errorString ''VM is locked'')) (Inr ''h'') (Inr 22)) [Error])
     = (Some (errorString ''VM is locked''),
        (test_world (test_Driver (Some (errorString ''VM is locked'')) (Inr ''h'') (Inr 22)) [Error])
          \<lparr>backend := [], trace := [Call_GetState, Call_Kill]\<rparr>)
   \<and> Start (test_Env (Inr (test_Provisioner None)))
       (test_world (test_Driver (Some (errorString ''VM is locked'')) (Inr ''h'') (Inr 22)) [Error])
     = (Some (errorString ''VM is locked''),
        (test_world (test_Driver (Some (errorString ''VM is locked'')) (Inr ''h'') (Inr 22)) [Error])
          \<lparr>backend := [], trace := [Call_GetState, Call_Start]\<rparr>)"
  using guard_then_action_then_poll
    [of "test_world (test_Driver (Some (errorString ''VM is locked'')) (Inr ''h'') (Inr 22)) [Error]"
        "errorString ''VM is locked''" "[]" "test_Env (Inr (test_Provisioner None))"]
  by (simp add: test_defs)

text \<open>
  A scenario of the specification: the machine is Stopped, \<^verbatim>\<open>Start\<close> is called, the action
  of the backend succeeds, and the poller observes Stopped, Stopped, Running: the
  operation succeeds after three polls.
\<close>

lemma Start_converges_after_three_polls:
  "Start (test_Env (Inr (test_Provisioner None))) (test_world dev_Driver [Stopped, Stopped, Stopped, Running])
     = (None,
        (test_world dev_Driver [Stopped, Stopped, Stopped, Running])
          \<lparr>backend := [],
            trace := [Call_GetState, Call_Start, Call_WaitFor, Call_GetState, Call_Sleep,
                      Call_GetState, Call_Sleep, Call_GetState]\<rparr>)"
  by (simp add: Start_def runActionForState_def MachineInState_eq invoke_eq WaitFor_def
      record_event_def test_defs numeral_3_eq_3)

lemma host_invoke: "host (snd (invoke ev m w)) = host w"
  by (simp add: invoke_eq)

lemma host_MachineInState: "host (snd (MachineInState d s w)) = host w"
  by (simp add: MachineInState_eq [of d s w])

lemma host_WaitFor_attempts:
  assumes "\<And>w. host (snd (f w)) = host w"
  shows "host (snd (WaitFor_attempts n f w)) = host w"
proof (induction n arbitrary: w)
  case 0
  then show ?case by simp
next
  case (Suc n)
  obtain b w' where f: "f w = (b, w')"
    by (cases "f w")
  with assms [of w] have h: "host w' = host w"
    by simp
  show ?case
  proof (cases b)
    case True
    with f h show ?thesis by simp
  next
    case False
    with f h Suc.IH [of "record_event Call_Sleep w'"] show ?thesis
      by (simp add: record_event_def)
  qed
qed

lemma host_WaitFor: "host (snd (WaitFor env (MachineInState d s) w)) = host w"
  by (simp add: WaitFor_def host_WaitFor_attempts host_MachineInState record_event_def)

lemma host_runActionForState:
  "host (snd (runActionForState env (invoke act m) s w)) = host w"
proof -
  obtain b w1 where g: "MachineInState (Driver (host w)) s w = (b, w1)"
    by (cases "MachineInState (Driver (host w)) s w")
  with host_MachineInState [of "Driver (host w)" s w] have h1: "host w1 = host w"
    by simp
  obtain r w2 where a: "invoke act m w1 = (r, w2)"
    by (cases "invoke act m w1")
  with host_invoke [of act m w1] h1 have h2: "host w2 = host w"
    by simp
  show ?thesis
  proof (cases b)
    case True
    with g h1 show ?thesis by (simp add: runActionForState_def)
  next
    case False
    with g a h2 host_WaitFor [of env "Driver (host w2)" s w2] show ?thesis
      by (cases r) (simp_all add: runActionForState_def)
  qed
qed

lemma host_Start: "host (snd (Start env w)) = host w"
  by (simp add: Start_def host_runActionForState)

lemma host_Stop: "host (snd (Stop env w)) = host w"
  by (simp add: Stop_def host_runActionForState)

lemma host_Kill: "host (snd (Kill env w)) = host w"
  by (simp add: Kill_def host_runActionForState)

lemma return_err_or_nil:
  "(case p of (None, w) \<Rightarrow> (None, w) | (Some err, w) \<Rightarrow> (Some err, w)) = p"
  by (cases p; cases "fst p") auto

lemma host_Restart: "host (snd (Restart env w)) = host w"
proof -
  have h:
    "host (snd (case p of (None, w') \<Rightarrow> k w' | (Some err, w') \<Rightarrow> (Some err, w'))) = host w0"
    if "host (snd p) = host w0" and "\<And>w'. host w' = host w0 \<Longrightarrow> host (snd (k w')) = host w0"
    for p :: "error option \<times> ('a, 'b, 'c, 'd) world" and k w0
    using that by (cases p; cases "fst p") auto
  have start: "host (snd (case Start env w' of
                   (None, w5) \<Rightarrow>
                     (case WaitFor env (MachineInState (Driver (host w5)) Running) w5 of
                        (None, w6) \<Rightarrow> (None, w6) | (Some err, w6) \<Rightarrow> (Some err, w6))
                 | (Some err, w5) \<Rightarrow> (Some err, w5))) = host w"
    if "host w' = host w" for w'
    by (rule h) (simp_all add: host_Start host_WaitFor return_err_or_nil that)
  have stop: "host (snd (case Stop env w1 of
                   (None, w2) \<Rightarrow>
                     (case WaitFor env (MachineInState (Driver (host w2)) Stopped) w2 of
                        (None, w3) \<Rightarrow> (None, w3) | (Some err, w3) \<Rightarrow> (Some err, w3))
                 | (Some err, w2) \<Rightarrow> (Some err, w2))) = host w"
    if "host w1 = host w" for w1
    by (rule h) (simp_all add: host_Stop host_WaitFor return_err_or_nil that)
  obtain b w1 where g: "MachineInState (Driver (host w)) Running w = (b, w1)"
    by (cases "MachineInState (Driver (host w)) Running w")
  with host_MachineInState [of "Driver (host w)" Running w] have h1: "host w1 = host w"
    by simp
  show ?thesis
    unfolding Restart_def g
    apply (rule h)
    subgoal using stop [OF h1] h1 by (cases b) simp_all
    subgoal for w4 by (rule start)
    done
qed

lemma host_Upgrade: "host (snd (Upgrade env w)) = host w"
  by (simp add: Upgrade_def invoke_eq record_event_def split: prod.splits sum.splits option.splits)

lemma host_ConfigureAuth: "host (snd (ConfigureAuth env w)) = host w"
  by (simp add: ConfigureAuth_def invoke_eq split: prod.splits sum.splits option.splits)

text \<open>
  C6. No operation of the orchestrator (\<^verbatim>\<open>Start\<close>, \<^verbatim>\<open>Stop\<close>, \<^verbatim>\<open>Kill\<close>, \<^verbatim>\<open>Restart\<close>,
  \<^verbatim>\<open>Upgrade\<close>, \<^verbatim>\<open>ConfigureAuth\<close>) stores a lifecycle state on the machine or changes a
  field of it: the \<^verbatim>\<open>Host\<close> (with \<^verbatim>\<open>Name\<close>, \<^verbatim>\<open>ConfigVersion\<close>, \<^verbatim>\<open>DriverName\<close>, \<^verbatim>\<open>HostOptions\<close>
  and the \<^verbatim>\<open>Driver\<close> reference) is after every operation what it was before, whatever
  the backend answers; the lifecycle state is no field of it, and is read by a query
  of the backend.
\<close>

theorem operations_leave_Host_unchanged:
  "host (snd (Start env w)) = host w
   \<and> host (snd (Stop env w)) = host w
   \<and> host (snd (Kill env w)) = host w
   \<and> host (snd (Restart env w)) = host w
   \<and> host (snd (Upgrade env w)) = host w
   \<and> host (snd (ConfigureAuth env w)) = host w"
  by (simp add: host_Start host_Stop host_Kill host_Restart host_Upgrade host_ConfigureAuth)

theorem operations_leave_Host_unchanged_witness:
  "Name (host (snd (Restart (test_Env (Inr (test_Provisioner None)))
                      (test_world dev_Driver [Running, Running, Stopped])))) = ''dev''
   \<and> ConfigVersion (host (snd (Upgrade (test_Env (Inr (test_Provisioner None)))
                      (test_world dev_Driver [Running])))) = 3
   \<and> DriverName (host (snd (ConfigureAuth (test_Env (Inr (test_Provisioner None)))
                      (test_world dev_Driver [])))) = ''virtualbox''"
  using
    operations_leave_Host_unchanged [of "test_Env (Inr (test_Provisioner None))"
      "test_world dev_Driver [Running, Running, Stopped]"]
    operations_leave_Host_unchanged [of "test_Env (Inr (test_Provisioner None))"
      "test_world dev_Driver [Running]"]
    operations_leave_Host_unchanged [of "test_Env (Inr (test_Provisioner None))"
      "test_world dev_Driver []"]
  by (simp add: test_world_def test_Host_def)

lemma guard_action_poll_events:
  "guard_action_poll act evs \<Longrightarrow> set evs \<subseteq> {Call_GetState, act, Call_WaitFor, Call_Sleep}"
  by (induction act evs rule: guard_action_poll.induct) (auto simp: list_all_iff)

text \<open>
  C2, as the code has it. For every machine initially observed as Running, \<^verbatim>\<open>Restart\<close>
  returns every error of its internal stop phase as it is, an "already stopped"
  condition included, and aborts without attempting the start phase: it ends in the
  world in which \<^verbatim>\<open>Stop\<close> ended, and \<^verbatim>\<open>Start\<close> of the backend is not among the calls made.
\<close>

theorem Restart_returns_every_stop_error:
  fixes env :: "('d, 's, 'a, 'e) Env" and w :: "('d, 's, 'a, 'e) world"
  assumes "fst (GetState (Driver (host w)) (backend w)) = Inr Running"
    and "Stop env (w\<lparr>backend := snd (GetState (Driver (host w)) (backend w)),
                     trace := trace w @ [Call_GetState]\<rparr>) = (Some err, w2)"
  shows "Restart env w = (Some err, w2)
         \<and> (\<exists>evs. trace w2 = trace w @ evs \<and> Call_Start \<notin> set evs)"
proof -
  let ?w1 = "w\<lparr>backend := snd (GetState (Driver (host w)) (backend w)),
               trace := trace w @ [Call_GetState]\<rparr>"
  from assms have r: "Restart env w = (Some err, w2)"
    by (simp add: Restart_def MachineInState_eq [of _ Running w])
  from runActionForState_trace [of env Call_Stop "Driver_Stop (Driver (host ?w1))" Stopped ?w1]
  obtain evs where t: "trace (snd (Stop env ?w1)) = trace ?w1 @ evs"
    and g: "guard_action_poll Call_Stop evs"
    by (auto simp: Stop_def)
  from guard_action_poll_events [OF g] have "Call_Start \<notin> set evs"
    by auto
  with t assms(2) have "trace w2 = trace w @ (Call_GetState # evs)
                        \<and> Call_Start \<notin> set (Call_GetState # evs)"
    by simp
  then have "\<exists>evs. trace w2 = trace w @ evs \<and> Call_Start \<notin> set evs"
    by (intro exI [of _ "Call_GetState # evs"])
  with r show ?thesis by simp
qed

theorem Restart_returns_every_stop_error_witness:
  "fst (GetState (Driver (host (test_world dev_Driver [Running, Stopped])))
          (backend (test_world dev_Driver [Running, Stopped]))) = Inr Running
   \<and> Stop (test_Env (Inr (test_Provisioner None)))
        ((test_world dev_Driver [Running, Stopped])
           \<lparr>backend := [Stopped], trace := [Call_GetState]\<rparr>)
       = (Some (errorString
                 (''Machine '' @ [CHR 0x22] @ ''dev'' @ [CHR 0x22] @ '' is already stopped.'')),
          (test_world dev_Driver [Running, Stopped])
            \<lparr>backend := [], trace := [Call_GetState, Call_GetState]\<rparr>)
   \<and> Restart (test_Env (Inr (test_Provisioner None))) (test_world dev_Driver [Running, Stopped])
       = (Some (errorString
                 (''Machine '' @ [CHR 0x22] @ ''dev'' @ [CHR 0x22] @ '' is already stopped.'')),
          (test_world dev_Driver [Running, Stopped])
            \<lparr>backend := [], trace := [Call_GetState, Call_GetState]\<rparr>)"
proof -
  have q: "fst (GetState (Driver (host (test_world dev_Driver [Running, Stopped])))
          (backend (test_world dev_Driver [Running, Stopped]))) = Inr Running"
    by (simp add: test_defs)
  have s: "Stop (test_Env (Inr (test_Provisioner None)))
        ((test_world dev_Driver [Running, Stopped])
           \<lparr>backend := snd (GetState (Driver (host (test_world dev_Driver [Running, Stopped])))
                              (backend (test_world dev_Driver [Running, Stopped]))),
             trace := trace (test_world dev_Driver [Running, Stopped]) @ [Call_GetState]\<rparr>)
       = (Some (errorString
                 (''Machine '' @ [CHR 0x22] @ ''dev'' @ [CHR 0x22] @ '' is already stopped.'')),
          (test_world dev_Driver [Running, Stopped])
            \<lparr>backend := [], trace := [Call_GetState, Call_GetState]\<rparr>)"
    by (simp add: Stop_def runActionForState_def MachineInState_def invoke_def ToLower_Stopped
        test_defs)
  show ?thesis
    using q s Restart_returns_every_stop_error [OF q s]
    by (simp add: test_defs)
qed

text \<open>
  The counterexample to C2 as the claim has it. The machine is observed Running by \<^verbatim>\<open>Restart\<close> and has
  stopped by the time the guard of \<^verbatim>\<open>Stop\<close> queries it: the stop phase returns the
  "already stopped" error, and \<^verbatim>\<open>Restart\<close> returns that error; it does not go on to the
  start phase.
\<close>

theorem Restart_already_stopped_counterexample:
  "fst (MachineInState dev_Driver Running (test_world dev_Driver [Running, Stopped]))
   \<and> fst (Stop (test_Env (Inr (test_Provisioner None)))
            (snd (MachineInState dev_Driver Running (test_world dev_Driver [Running, Stopped]))))
       = Some (errorString
                (''Machine '' @ [CHR 0x22] @ ''dev'' @ [CHR 0x22] @ '' is already stopped.''))
   \<and> fst (Restart (test_Env (Inr (test_Provisioner None)))
            (test_world dev_Driver [Running, Stopped]))
       = Some (errorString
                (''Machine '' @ [CHR 0x22] @ ''dev'' @ [CHR 0x22] @ '' is already stopped.''))
   \<and> trace (snd (Restart (test_Env (Inr (test_Provisioner None)))
                   (test_world dev_Driver [Running, Stopped])))
       = [Call_GetState, Call_GetState]
   \<and> Call_Start \<notin> set (trace (snd (Restart (test_Env (Inr (test_Provisioner None)))
                                      (test_world dev_Driver [Running, Stopped]))))"
  by (simp add: Restart_def Stop_def runActionForState_def MachineInState_def invoke_def
      ToLower_Stopped test_defs)

end
